theory Spec2Isabelle
  imports Main
begin

section \<open>Data model\<close>

text \<open>
  The three source files (\<^verbatim>\<open>analyze.py\<close>, \<^verbatim>\<open>gcal/analyze.py\<close>, \<^verbatim>\<open>gcal/audit.py\<close>) are
  successive variants of one engine. The exceptions the modelled code can raise:
  \<^verbatim>\<open>max()\<close> of an empty sequence raises \<^verbatim>\<open>ValueError\<close>, a division by a zero window
  length raises \<^verbatim>\<open>ZeroDivisionError\<close>, a division by the initial \<^verbatim>\<open>None\<close> window length
  raises \<^verbatim>\<open>TypeError\<close>, and date arithmetic beyond year 9999 raises \<^verbatim>\<open>OverflowError\<close>.
\<close>

datatype py_error = ValueError | ZeroDivisionError | TypeError | OverflowError

text \<open>
  An aware \<^verbatim>\<open>datetime\<close> with a fixed UTC offset: \<open>wall\<close> is the wall-clock reading in
  seconds since 0001-01-01T00:00:00 (the calendar events of the service carry whole
  seconds), \<open>utcoffset\<close> the offset in seconds. Subtraction and comparison of aware
  datetimes go through the UTC instant.
\<close>

record datetime =
  wall :: int
  utcoffset :: int

definition instant :: "datetime \<Rightarrow> int" where
  "instant dt = wall dt - utcoffset dt"

text \<open>
  An event is the dictionary the calendar service returns for the requested fields
  \<^verbatim>\<open>items(start, end, summary, description)\<close>: \<^verbatim>\<open>event["start"]["dateTime"]\<close>,
  \<^verbatim>\<open>event["end"]["dateTime"]\<close> and \<^verbatim>\<open>event["summary"]\<close> are read unconditionally by the
  code, the key \<^verbatim>\<open>"description"\<close> is tested with \<^verbatim>\<open>in\<close> and so is optional.
\<close>

record event =
  start_dateTime :: datetime
  end_dateTime :: datetime
  summary :: string
  description :: "string option"

text \<open>
  \<^verbatim>\<open>extract_duration(event).total_seconds()\<close>, respectively
  \<^verbatim>\<open>(event["end"]["dateTime"] - event["start"]["dateTime"]).total_seconds()\<close>: a whole
  number of seconds, negative when the event ends before it starts.
\<close>

definition extract_duration :: "event \<Rightarrow> int" where
  "extract_duration e = instant (end_dateTime e) - instant (start_dateTime e)"

section \<open>Tag extraction\<close>

text \<open>
  \<^verbatim>\<open>re.findall(r"\[Tags:(.*?)\]", text)\<close>: the group of a match that starts at the head of
  the text is the shortest run of characters other than a line feed that is followed
  by a closing bracket.
\<close>

fun tags_group :: "string \<Rightarrow> string option" where
  "tags_group [] = None"
| "tags_group (c # cs) =
     (if c = CHR '']'' then Some []
      else if c = CHR 0x0A then None
      else map_option ((#) c) (tags_group cs))"

text \<open>
  \<open>first_match text\<close> is \<^verbatim>\<open>matches[0]\<close> when \<^verbatim>\<open>matches\<close> is not empty, and \<open>None\<close>
  when it is: the scan tries every start position from left to right.
\<close>

fun first_match :: "string \<Rightarrow> string option" where
  "first_match [] = None"
| "first_match (c # cs) =
     (if take 6 (c # cs) = ''[Tags:'' then
        (case tags_group (drop 6 (c # cs)) of
           Some g \<Rightarrow> Some g
         | None \<Rightarrow> first_match cs)
      else first_match cs)"

text \<open>\<^verbatim>\<open>s.split(",")\<close>: always at least one piece.\<close>

fun split_comma :: "string \<Rightarrow> string list" where
  "split_comma [] = [[]]"
| "split_comma (c # cs) =
     (if c = CHR '','' then [] # split_comma cs
      else (case split_comma cs of
              [] \<Rightarrow> [[c]]
            | w # ws \<Rightarrow> (c # w) # ws))"

text \<open>
  \<^verbatim>\<open>s.strip()\<close> removes leading and trailing whitespace; these are the whitespace code
  points below 256.
\<close>

definition isspace :: "char \<Rightarrow> bool" where
  "isspace c = ((of_char c :: nat) \<in> {9, 10, 11, 12, 13, 28, 29, 30, 31, 32, 133, 160})"

definition strip :: "string \<Rightarrow> string" where
  "strip s = rev (dropWhile isspace (rev (dropWhile isspace s)))"

text \<open>\<^verbatim>\<open>extract_event_types\<close> of \<^verbatim>\<open>analyze.py\<close>.\<close>

definition extract_event_types :: "event \<Rightarrow> string list" where
  "extract_event_types e =
     (case description e of
        None \<Rightarrow> [summary e]
      | Some d \<Rightarrow>
          (case first_match d of
             None \<Rightarrow> [summary e]
           | Some m \<Rightarrow> map strip (split_comma m)))"

text \<open>
  \<^verbatim>\<open>extract_event_categories\<close> of \<^verbatim>\<open>gcal/audit.py\<close> and \<^verbatim>\<open>gcal/analyze.py\<close>; the flag is
  \<^verbatim>\<open>self._audit_first_tag_only\<close> (\<^verbatim>\<open>self._analyze_first_tag_only\<close>), whose initial
  \<^verbatim>\<open>None\<close> is as false as \<^verbatim>\<open>False\<close>. \<^verbatim>\<open>split\<close> never returns the empty list, so the
  index \<^verbatim>\<open>[0]\<close> is always in range; the \<open>[]\<close> case below is never taken.
\<close>

definition extract_event_categories :: "bool \<Rightarrow> event \<Rightarrow> string list" where
  "extract_event_categories first_tag_only e =
     (case description e of
        None \<Rightarrow> [summary e]
      | Some d \<Rightarrow>
          (case first_match d of
             None \<Rightarrow> [summary e]
           | Some m \<Rightarrow>
               (if first_tag_only then
                  (case split_comma m of [] \<Rightarrow> [] | w # ws \<Rightarrow> [strip w])
                else map strip (split_comma m))))"

section \<open>Aggregation\<close>

text \<open>
  A Python \<^verbatim>\<open>dict\<close> keeps its keys in insertion order, and the order is what the report
  is about: the dictionary is an association list with distinct keys.
  \<open>dict_get\<close> is \<^verbatim>\<open>durations.get(key, default)\<close>; \<open>dict_update\<close> is
  \<^verbatim>\<open>durations.update({key: value})\<close>, which overwrites in place or appends.
\<close>

type_synonym durations = "(string \<times> int) list"

fun dict_get :: "durations \<Rightarrow> string \<Rightarrow> int \<Rightarrow> int" where
  "dict_get [] k d = d"
| "dict_get ((k', v) # kvs) k d = (if k' = k then v else dict_get kvs k d)"

fun dict_update :: "string \<Rightarrow> int \<Rightarrow> durations \<Rightarrow> durations" where
  "dict_update k v [] = [(k, v)]"
| "dict_update k v ((k', v') # kvs) =
     (if k' = k then (k, v) # kvs else (k', v') # dict_update k v kvs)"

text \<open>The inner loop over the categories of one event.\<close>

fun add_event_types :: "int \<Rightarrow> string list \<Rightarrow> durations \<Rightarrow> durations" where
  "add_event_types event_duration [] durations = durations"
| "add_event_types event_duration (event_type # event_types) durations =
     add_event_types event_duration event_types
       (dict_update event_type (dict_get durations event_type 0 + event_duration) durations)"

text \<open>The outer loop over the events.\<close>

fun accumulate :: "bool \<Rightarrow> event list \<Rightarrow> durations \<Rightarrow> durations" where
  "accumulate first_tag_only [] durations = durations"
| "accumulate first_tag_only (e # events) durations =
     accumulate first_tag_only events
       (add_event_types (extract_duration e)
          (extract_event_categories first_tag_only e) durations)"

text \<open>
  \<^verbatim>\<open>dict(sorted(durations.items(), key=lambda item: item[1], reverse=True))\<close>: Python's
  sort is stable, also with \<^verbatim>\<open>reverse=True\<close>, so it is the stable sort on the negated
  value. The keys are distinct, so \<^verbatim>\<open>dict\<close> keeps every pair in that order.
\<close>

definition sorted_items :: "durations \<Rightarrow> durations" where
  "sorted_items durations = sort_key (\<lambda>item. - snd item) durations"

text \<open>
  \<^verbatim>\<open>categorize_events\<close> of \<^verbatim>\<open>gcal/audit.py\<close> and \<^verbatim>\<open>gcal/analyze.py\<close>. With the flag
  false it is \<^verbatim>\<open>categorize_events\<close> of \<^verbatim>\<open>analyze.py\<close>, which has no such option.
\<close>

definition categorize_events :: "bool \<Rightarrow> event list \<Rightarrow> durations" where
  "categorize_events first_tag_only events =
     sorted_items (accumulate first_tag_only events [])"

section \<open>Rendering\<close>

definition SECS_IN_DAY :: int where "SECS_IN_DAY = 86400"
definition SECS_IN_MINUTE :: int where "SECS_IN_MINUTE = 60"
definition MINUTES_IN_HOUR :: int where "MINUTES_IN_HOUR = 60"

text \<open>Decimal digits of an integer, as \<^verbatim>\<open>str\<close> and the format code \<^verbatim>\<open>d\<close> print them.\<close>

definition digit_char :: "nat \<Rightarrow> char" where
  "digit_char d = char_of (48 + d)"

fun str_nat :: "nat \<Rightarrow> string" where
  "str_nat n = (if n < 10 then [digit_char n] else str_nat (n div 10) @ [digit_char (n mod 10)])"

declare str_nat.simps [simp del]

definition str_int :: "int \<Rightarrow> string" where
  "str_int i = (if i < 0 then CHR ''-'' # str_nat (nat (- i)) else str_nat (nat i))"

text \<open>\<^verbatim>\<open>f"{i:02d}"\<close>: zero padding to width 2; a sign counts towards the width.\<close>

definition format_02d :: "int \<Rightarrow> string" where
  "format_02d i = (if 0 \<le> i \<and> i < 10 then CHR ''0'' # str_int i else str_int i)"

text \<open>
  \<^verbatim>\<open>f"{s:^w}"\<close> centres a string in a field, the smaller half of the padding on the
  left; \<^verbatim>\<open>f"{s:w}"\<close> pads a string on the right. A string longer than the field is
  left as it is.
\<close>

definition center :: "nat \<Rightarrow> string \<Rightarrow> string" where
  "center w s =
     (let pad = w - length s; left = pad div 2
      in replicate left CHR '' '' @ s @ replicate (pad - left) CHR '' '')"

definition ljust :: "nat \<Rightarrow> string \<Rightarrow> string" where
  "ljust w s = s @ replicate (w - length s) CHR '' ''"

text \<open>
  The duration column: \<^verbatim>\<open>minutes = seconds // 60\<close>, \<^verbatim>\<open>hours = minutes // 60\<close>,
  \<^verbatim>\<open>minutes = minutes % 60\<close>, \<^verbatim>\<open>f"{int(hours)}:{int(minutes):02d}"\<close>. Python's \<^verbatim>\<open>//\<close> and
  \<^verbatim>\<open>%\<close> round towards minus infinity, as \<open>div\<close> and \<open>mod\<close> do.
\<close>

definition duration_column :: "int \<Rightarrow> string" where
  "duration_column seconds =
     (let minutes = seconds div SECS_IN_MINUTE;
          hours = minutes div MINUTES_IN_HOUR;
          minutes = minutes mod MINUTES_IN_HOUR
      in str_int hours @ '':'' @ format_02d minutes)"

text \<open>
  The percentage \<^verbatim>\<open>round((seconds / window) * 100, 2)\<close> is computed in binary64
  arithmetic: the quotient is rounded to the nearest float, its product with 100 is
  rounded again, and \<^verbatim>\<open>round\<close> takes the exact value of that float to the nearest
  hundredth. Every rounding sends a tie to the even neighbour.

  \<open>round_half_even n d\<close> is the integer nearest to \<open>n / d\<close>.
\<close>

definition round_half_even :: "int \<Rightarrow> int \<Rightarrow> int" where
  "round_half_even n d =
     (let n' = (if d < 0 then - n else n); d' = \<bar>d\<bar>;
          q = n' div d'; r = n' mod d'
      in if 2 * r < d' then q
         else if d' < 2 * r then q + 1
         else if even q then q else q + 1)"

text \<open>
  A finite binary64 number is a pair \<open>(m, e)\<close> that stands for \<open>m * 2 ^ e\<close>, with a
  significand of at most 53 bits. \<open>binary64 num den\<close> is the float nearest to the
  ratio \<open>num / den\<close>: the exponent is chosen so that the scaled ratio lies between
  \<open>2 ^ 52\<close> and \<open>2 ^ 53\<close>, and the scaled ratio is rounded to an integer. The
  exponent range is not modelled: the durations of calendar events are far from
  overflow and underflow.
\<close>

function bit_length :: "int \<Rightarrow> nat" where
  "bit_length n = (if n \<le> 0 then 0 else Suc (bit_length (n div 2)))"
  by pat_completeness auto

termination
  by (relation "measure nat") auto

declare bit_length.simps [simp del]

definition scaled :: "int \<Rightarrow> int \<Rightarrow> int \<Rightarrow> int \<times> int" where
  "scaled num den e =
     (if 0 \<le> e then (num, den * 2 ^ nat e) else (num * 2 ^ nat (- e), den))"

definition binary64 :: "int \<Rightarrow> int \<Rightarrow> int \<times> int" where
  "binary64 num den =
     (if num = 0 then (0, 0)
      else
        let n = \<bar>num\<bar>; d = \<bar>den\<bar>;
            e0 = int (bit_length n) - int (bit_length d) - 53;
            e = (case scaled n d e0 of (a, b) \<Rightarrow> if 2 ^ 53 * b \<le> a then e0 + 1 else e0);
            m = (case scaled n d e of (a, b) \<Rightarrow> round_half_even a b)
        in (if (num < 0) \<noteq> (den < 0) then - m else m, e))"

text \<open>The product of a float and an integer, rounded to a float.\<close>

definition float_times :: "int \<times> int \<Rightarrow> int \<Rightarrow> int \<times> int" where
  "float_times x k =
     (case x of (m, e) \<Rightarrow>
        if 0 \<le> e then binary64 (m * k * 2 ^ nat e) 1 else binary64 (m * k) (2 ^ nat (- e)))"

text \<open>
  \<^verbatim>\<open>round(x, 2)\<close>, as its number of hundredths: the exact value of the float is rounded
  to two decimal places (and read back as the float nearest to that decimal).
\<close>

definition round_2 :: "int \<times> int \<Rightarrow> int" where
  "round_2 x =
     (case x of (m, e) \<Rightarrow>
        if 0 \<le> e then m * 100 * 2 ^ nat e else round_half_even (m * 100) (2 ^ nat (- e)))"

text \<open>
  The hundredths of \<^verbatim>\<open>round((seconds / window) * 100, 2)\<close>. Both operands are whole
  numbers that a float holds exactly. \<open>negative\<close> is the sign bit of the result, which
  a zero keeps (\<^verbatim>\<open>-0.0\<close>): the accumulated seconds are never a negative zero, so the
  sign bit of the quotient is set exactly when one of the two operands is below zero.
\<close>

definition percent_hundredths :: "int \<Rightarrow> int \<Rightarrow> int" where
  "percent_hundredths seconds window =
     round_2 (float_times (binary64 seconds window) 100)"

definition negative :: "int \<Rightarrow> int \<Rightarrow> bool" where
  "negative seconds window = ((seconds < 0) \<noteq> (window < 0))"

text \<open>
  \<^verbatim>\<open>f"{x:.2f}"\<close> of the float with \<open>h\<close> hundredths: the integer part, a point and two
  digits.
\<close>

definition format_2f :: "bool \<Rightarrow> int \<Rightarrow> string" where
  "format_2f neg h =
     (if neg then ''-'' else []) @ str_nat (nat \<bar>h\<bar> div 100) @ ''.'' @
     [digit_char (nat \<bar>h\<bar> mod 100 div 10), digit_char (nat \<bar>h\<bar> mod 10)]"

text \<open>
  \<^verbatim>\<open>f"{x}"\<close> of the float with \<open>h\<close> hundredths is \<^verbatim>\<open>repr\<close>: the shortest decimal that
  reads back as the same float, which has at least one digit after the point and no
  trailing zero beyond it (below 10^16, where \<^verbatim>\<open>repr\<close> changes to the exponent form).
\<close>

definition float_repr :: "bool \<Rightarrow> int \<Rightarrow> string" where
  "float_repr neg h =
     (if neg then ''-'' else []) @ str_nat (nat \<bar>h\<bar> div 100) @ ''.'' @
     (if nat \<bar>h\<bar> mod 10 = 0 then [digit_char (nat \<bar>h\<bar> mod 100 div 10)]
      else [digit_char (nat \<bar>h\<bar> mod 100 div 10), digit_char (nat \<bar>h\<bar> mod 10)])"

text \<open>
  The percentage column of the three variants: \<^verbatim>\<open>analyze.py\<close> divides by the constant
  \<^verbatim>\<open>SECS_IN_DAY\<close>; \<^verbatim>\<open>gcal/analyze.py\<close> and \<^verbatim>\<open>gcal/audit.py\<close> divide by
  \<^verbatim>\<open>self._total_duration\<close>, which is \<^verbatim>\<open>None\<close> before the first query and may be zero;
  only \<^verbatim>\<open>gcal/audit.py\<close> formats with \<^verbatim>\<open>:.2f\<close>.
\<close>

definition percent_of_day :: "int \<Rightarrow> string" where
  "percent_of_day seconds =
     float_repr (negative seconds SECS_IN_DAY) (percent_hundredths seconds SECS_IN_DAY)"

definition GCalAnalyzer_percent_of_total :: "int option \<Rightarrow> int \<Rightarrow> py_error + string" where
  "GCalAnalyzer_percent_of_total total_duration seconds =
     (case total_duration of
        None \<Rightarrow> Inl TypeError
      | Some window \<Rightarrow>
          if window = 0 then Inl ZeroDivisionError
          else Inr (float_repr (negative seconds window) (percent_hundredths seconds window)))"

definition percent_of_total :: "int option \<Rightarrow> int \<Rightarrow> py_error + string" where
  "percent_of_total total_duration seconds =
     (case total_duration of
        None \<Rightarrow> Inl TypeError
      | Some window \<Rightarrow>
          if window = 0 then Inl ZeroDivisionError
          else Inr (format_2f (negative seconds window) (percent_hundredths seconds window)))"

text \<open>\<^verbatim>\<open>max(len(event_type) for event_type in categories.keys())\<close> on a non-empty mapping.\<close>

definition event_type_max_len :: "durations \<Rightarrow> nat" where
  "event_type_max_len categories = fold max (map (length \<circ> fst) categories) 0"

definition rule_line :: "string \<Rightarrow> string" where
  "rule_line title = ''+'' @ replicate (length title - 2) CHR ''-'' @ ''+''"

text \<open>
  A printing function returns the lines it has printed and the exception that ended
  it, if any: what was printed before an exception stays printed.
\<close>

type_synonym 'a printing = "'a list \<times> py_error option"

subsection \<open>\<^verbatim>\<open>print_analysis\<close> of \<^verbatim>\<open>analyze.py\<close>\<close>

definition print_analysis :: "durations \<Rightarrow> string printing" where
  "print_analysis categories =
     (if categories = [] then ([], Some ValueError)
      else
        let w = event_type_max_len categories;
            title = ''| '' @ center w ''Event Type'' @ '' | '' @ center 8 ''Duration'' @
                    '' | '' @ center 8 ''% of Day'' @ '' |'';
            rows = map (\<lambda>(event_type, seconds).
                      ''| '' @ ljust w event_type @ '' | '' @
                      center 8 (duration_column seconds) @ '' | '' @
                      center 8 (percent_of_day seconds) @ '' |'') categories
        in ([rule_line title, title, rule_line title] @ rows @ [rule_line title], None))"

subsection \<open>\<^verbatim>\<open>GCalAuditor.print_analysis\<close> of \<^verbatim>\<open>gcal/audit.py\<close>\<close>

text \<open>
  The state of a \<^verbatim>\<open>GCalAuditor\<close>. The flag \<^verbatim>\<open>_audit_first_tag_only\<close> starts as \<^verbatim>\<open>None\<close>,
  which every test of it treats as false.
\<close>

record auditor =
  audit_first_tag_only :: bool
  total_duration :: "int option"

text \<open>One table row; the division by the window length may raise.\<close>

definition table_row :: "int option \<Rightarrow> nat \<Rightarrow> string \<Rightarrow> int \<Rightarrow> py_error + string" where
  "table_row window w label seconds =
     (case percent_of_total window seconds of
        Inl err \<Rightarrow> Inl err
      | Inr percent \<Rightarrow>
          Inr (''| '' @ center w label @ '' | '' @ center 8 (duration_column seconds) @
               '' | '' @ center 10 percent @ '' |''))"

text \<open>The loop over \<^verbatim>\<open>categories.items()\<close>; it stops at the first exception.\<close>

fun data_rows :: "int option \<Rightarrow> nat \<Rightarrow> durations \<Rightarrow> string printing" where
  "data_rows window w [] = ([], None)"
| "data_rows window w ((event_type, seconds) # categories) =
     (case table_row window w event_type seconds of
        Inl err \<Rightarrow> ([], Some err)
      | Inr row \<Rightarrow>
          (case data_rows window w categories of
             (rows, status) \<Rightarrow> (row # rows, status)))"

definition GCalAuditor_print_analysis :: "auditor \<Rightarrow> durations \<Rightarrow> string printing" where
  "GCalAuditor_print_analysis self categories =
     (if categories = [] then ([], Some ValueError)
      else
        let w = event_type_max_len categories;
            title = ''| '' @ center w ''Event Type'' @ '' | '' @ center 8 ''Duration'' @
                    '' | '' @ center 10 ''% of Total'' @ '' |'';
            head = [rule_line title, title, rule_line title]
        in case data_rows (total_duration self) w categories of
             (rows, Some err) \<Rightarrow> (head @ rows, Some err)
           | (rows, None) \<Rightarrow>
               if audit_first_tag_only self then
                 (case table_row (total_duration self) w ''Total''
                         (sum_list (map snd categories)) of
                    Inl err \<Rightarrow> (head @ rows @ [rule_line title], Some err)
                  | Inr total_row \<Rightarrow>
                      (head @ rows @ [rule_line title, total_row, rule_line title], None))
               else (head @ rows @ [rule_line title], None))"

section \<open>The audits of \<^verbatim>\<open>gcal/audit.py\<close>\<close>

text \<open>
  What the audit prints with \<^verbatim>\<open>print\<close>. The lines that carry a \<^verbatim>\<open>datetime\<close> or a
  flag are kept structured instead of rendering the value as text.
\<close>

datatype printed =
    Line string
  | Echo bool
  | NoEventsFound datetime datetime
  | DayHeading string int
  | NoEventsFoundFor datetime

text \<open>
  The calendar service is outside the program: a query either raises \<^verbatim>\<open>HttpError\<close> or
  answers with the list of items, whose timestamps \<^verbatim>\<open>query_events\<close> parses.
\<close>

datatype api_result = HttpError | Items "event list"

text \<open>
  \<^verbatim>\<open>query_events\<close> stores the length of the window first. The \<^verbatim>\<open>except HttpError\<close> branch
  only logs, so the function falls off its end and returns \<^verbatim>\<open>None\<close>.
\<close>

definition query_events ::
  "auditor \<Rightarrow> api_result \<Rightarrow> datetime \<Rightarrow> datetime \<Rightarrow> auditor \<times> event list option" where
  "query_events self api start_datetime end_datetime =
     (self\<lparr>total_duration := Some (instant end_datetime - instant start_datetime)\<rparr>,
      case api of HttpError \<Rightarrow> None | Items events \<Rightarrow> Some events)"

text \<open>\<^verbatim>\<open>not events\<close> holds of \<^verbatim>\<open>None\<close> and of the empty list.\<close>

definition not_events :: "event list option \<Rightarrow> bool" where
  "not_events events = (case events of None \<Rightarrow> True | Some es \<Rightarrow> es = [])"

text \<open>\<^verbatim>\<open>_audit\<close>, which \<^verbatim>\<open>audit_day\<close> and \<^verbatim>\<open>audit_datetime_range\<close> run on their window.\<close>

definition audit_window ::
  "auditor \<Rightarrow> api_result \<Rightarrow> datetime \<Rightarrow> datetime \<Rightarrow> auditor \<times> printed printing" where
  "audit_window self api start_datetime end_datetime =
     (case query_events self api start_datetime end_datetime of
        (self', events) \<Rightarrow>
          if not_events events then (self', [NoEventsFound start_datetime end_datetime], None)
          else
            (case GCalAuditor_print_analysis self'
                    (categorize_events (audit_first_tag_only self') (the events)) of
               (lines, status) \<Rightarrow> (self', map Line lines, status)))"

subsection \<open>Calendar arithmetic\<close>

text \<open>
  Day \<open>0\<close> is 0001-01-01, a Monday; the last day a \<^verbatim>\<open>datetime\<close> can hold is 9999-12-31,
  day \<open>3652058\<close>. \<open>day_of_month\<close> is the proleptic Gregorian day of the month of a day
  number, which is what the field \<^verbatim>\<open>.day\<close> holds.
\<close>

definition MAX_DAYS :: int where "MAX_DAYS = 3652059"

definition date_of :: "datetime \<Rightarrow> int" where
  "date_of dt = wall dt div SECS_IN_DAY"

definition weekday :: "datetime \<Rightarrow> nat" where
  "weekday dt = nat (date_of dt mod 7)"

definition day_of_month :: "int \<Rightarrow> int" where
  "day_of_month n =
     (let doe = (n + 306) mod 146097;
          yoe = (doe - doe div 1460 + doe div 36524 - doe div 146096) div 365;
          doy = doe - (365 * yoe + yoe div 4 - yoe div 100);
          mp = (5 * doy + 2) div 153
      in doy - (153 * mp + 2) div 5 + 1)"

definition day :: "datetime \<Rightarrow> int" where
  "day dt = day_of_month (date_of dt)"

text \<open>\<^verbatim>\<open>dt + timedelta(days=n)\<close> keeps the offset and raises beyond the calendar.\<close>

definition plus_days :: "datetime \<Rightarrow> int \<Rightarrow> py_error + datetime" where
  "plus_days dt n =
     (let w = wall dt + n * SECS_IN_DAY
      in if w < 0 \<or> MAX_DAYS * SECS_IN_DAY \<le> w then Inl OverflowError
         else Inr (dt\<lparr>wall := w\<rparr>))"

definition DAYS_OF_WEEK :: "string list" where
  "DAYS_OF_WEEK =
     [''Monday'', ''Tuesday'', ''Wednesday'', ''Thursday'', ''Friday'', ''Saturday'', ''Sunday'']"

text \<open>
  \<^verbatim>\<open>DateInputter.input_week\<close> on the date with day number \<open>n\<close> (the parsing of the typed
  text is outside the model, a text that is no date raises \<^verbatim>\<open>ValueError\<close>): midnight
  of that day to 23:59:59 six days later, at the offset -07:00. The end of the week
  is written with \<^verbatim>\<open>strftime("%Y-%m-%d")\<close> and parsed again; the C library does not
  pad the year, so an end before 1000-01-01 (day number \<open>364877\<close>) is written with
  fewer than four digits and \<^verbatim>\<open>fromisoformat\<close> raises \<^verbatim>\<open>ValueError\<close>.
\<close>

definition input_week :: "int \<Rightarrow> py_error + datetime \<times> datetime" where
  "input_week n =
     (if n < 0 then Inl ValueError
      else if MAX_DAYS \<le> n + 6 then Inl OverflowError
      else if n + 6 < 364877 then Inl ValueError
      else Inr (\<lparr>wall = n * SECS_IN_DAY, utcoffset = - 25200\<rparr>,
                \<lparr>wall = (n + 6) * SECS_IN_DAY + 86399, utcoffset = - 25200\<rparr>))"

subsection \<open>\<^verbatim>\<open>audit_week\<close>\<close>

text \<open>The events of the week that start on the day of the month of \<open>cur_datetime\<close>.\<close>

definition cur_events :: "event list \<Rightarrow> datetime \<Rightarrow> event list" where
  "cur_events events cur_datetime =
     filter (\<lambda>event. day (start_dateTime event) = day cur_datetime) events"

text \<open>What one round of the loop over the days prints.\<close>

definition audit_one_day :: "auditor \<Rightarrow> event list \<Rightarrow> datetime \<Rightarrow> printed printing" where
  "audit_one_day self events cur_datetime =
     (let heading = DayHeading (DAYS_OF_WEEK ! weekday cur_datetime) (date_of cur_datetime)
      in if cur_events events cur_datetime = [] then
           ([heading, NoEventsFoundFor cur_datetime], None)
         else
           (case GCalAuditor_print_analysis self
                   (categorize_events (audit_first_tag_only self)
                      (cur_events events cur_datetime)) of
              (lines, status) \<Rightarrow> (heading # map Line lines, status)))"

text \<open>
  The loop \<^verbatim>\<open>while cur_datetime <= end_datetime\<close>: every round resets the window length
  to one day, prints its section and steps to the next day.
\<close>

function audit_days ::
  "auditor \<Rightarrow> event list \<Rightarrow> datetime \<Rightarrow> datetime \<Rightarrow> auditor \<times> printed printing" where
  "audit_days self events cur_datetime end_datetime =
     (if instant cur_datetime \<le> instant end_datetime then
        (let self' = self\<lparr>total_duration := Some SECS_IN_DAY\<rparr>
         in case audit_one_day self' events cur_datetime of
              (out, Some err) \<Rightarrow> (self', out, Some err)
            | (out, None) \<Rightarrow>
                (case plus_days cur_datetime 1 of
                   Inl err \<Rightarrow> (self', out, Some err)
                 | Inr cur' \<Rightarrow>
                     (case audit_days self' events cur' end_datetime of
                        (self'', out', status) \<Rightarrow> (self'', out @ out', status))))
      else (self, [], None))"
  by pat_completeness auto

termination
  by (relation "measure (\<lambda>(self, events, cur_datetime, end_datetime).
                   nat (instant end_datetime - instant cur_datetime + 1))")
     (auto simp: plus_days_def instant_def SECS_IN_DAY_def Let_def split: if_splits)

declare audit_days.simps [simp del]

text \<open>
  \<^verbatim>\<open>set_tag_option\<close> prints its question and sets the flag from the typed reply:
  \<^verbatim>\<open>reply.lower() in ["yes", "y"]\<close>. \<open>lower\<close> is \<^verbatim>\<open>str.lower\<close> on the code points
  below 256. (What \<^verbatim>\<open>input\<close> writes as its prompt is not a printed line.)
\<close>

definition lower :: "string \<Rightarrow> string" where
  "lower s =
     map (\<lambda>c. let n = (of_char c :: nat)
               in if (65 \<le> n \<and> n \<le> 90) \<or> (192 \<le> n \<and> n \<le> 222 \<and> n \<noteq> 215)
                  then char_of (n + 32) else c) s"

definition set_tag_option :: "auditor \<Rightarrow> string \<Rightarrow> auditor \<times> printed list" where
  "set_tag_option self reply =
     (self\<lparr>audit_first_tag_only := (lower reply \<in> set [''yes'', ''y''])\<rparr>,
      [Line ''audit the first tag only?''])"

text \<open>
  \<^verbatim>\<open>audit_week\<close>: \<open>reply\<close> is the typed reply to \<^verbatim>\<open>set_tag_option\<close>, \<open>n\<close> the day number
  of the typed start date.
\<close>

definition audit_week ::
  "auditor \<Rightarrow> string \<Rightarrow> int \<Rightarrow> api_result \<Rightarrow> auditor \<times> printed printing" where
  "audit_week self reply n api =
     (case set_tag_option self reply of
        (self1, question) \<Rightarrow>
          (let head = question @ [Echo (audit_first_tag_only self1)]
           in case input_week n of
                Inl err \<Rightarrow> (self1, head, Some err)
              | Inr (start_datetime, end_datetime) \<Rightarrow>
                  (case query_events self1 api start_datetime end_datetime of
                     (self2, events) \<Rightarrow>
                       if not_events events then
                         (self2, head @ [NoEventsFound start_datetime end_datetime], None)
                       else
                         (case GCalAuditor_print_analysis self2
                                 (categorize_events (audit_first_tag_only self2)
                                    (the events)) of
                            (lines, Some err) \<Rightarrow> (self2, head @ map Line lines, Some err)
                          | (lines, None) \<Rightarrow>
                              (case audit_days self2 (the events) start_datetime
                                      end_datetime of
                                 (self3, out, status) \<Rightarrow>
                                   (self3, head @ map Line lines @ out, status))))))"

section \<open>Vocabulary of the properties\<close>

definition first_encounters :: "'a list \<Rightarrow> 'a list" where
  "first_encounters xs = rev (remdups (rev xs))"

definition event_labels :: "bool \<Rightarrow> event list \<Rightarrow> string list" where
  "event_labels first_tag_only events = concat (map (extract_event_categories first_tag_only) events)"

text \<open>
  The section of one day in the audit of a week: the heading, then the marker of a
  day without events or the table of the day with the window length of one day.
\<close>

definition day_section :: "bool \<Rightarrow> event list \<Rightarrow> datetime \<Rightarrow> printed list" where
  "day_section first_tag_only events cur_datetime =
     DayHeading (DAYS_OF_WEEK ! weekday cur_datetime) (date_of cur_datetime) #
     (if cur_events events cur_datetime = [] then [NoEventsFoundFor cur_datetime]
      else map Line (fst (GCalAuditor_print_analysis
             \<lparr>audit_first_tag_only = first_tag_only, total_duration = Some 86400\<rparr>
             (categorize_events first_tag_only (cur_events events cur_datetime)))))"

section \<open>Lemmas on the extraction and the accumulation\<close>

lemma split_comma_nonempty: "split_comma s \<noteq> []"
  by (induction s) (auto split: list.splits)

lemma extract_event_categories_nonempty: "extract_event_categories f e \<noteq> []"
  by (auto simp: extract_event_categories_def split_comma_nonempty split: option.splits list.splits)

lemma extract_event_categories_False: "extract_event_categories False e = extract_event_types e"
  by (simp add: extract_event_categories_def extract_event_types_def split: option.splits)

lemma dict_get_map_of: "dict_get d k x = (case map_of d k of None \<Rightarrow> x | Some v \<Rightarrow> v)"
  by (induction d) auto

lemma map_of_dict_update: "map_of (dict_update k v d) = (map_of d)(k \<mapsto> v)"
  by (induction d) (auto simp: fun_eq_iff)

lemma keys_dict_update:
  "map fst (dict_update k v d) = (if k \<in> set (map fst d) then map fst d else map fst d @ [k])"
  by (induction d) force+

lemma distinct_dict_update: "distinct (map fst d) \<Longrightarrow> distinct (map fst (dict_update k v d))"
  by (simp add: keys_dict_update)

lemma sum_dict_update:
  "sum_list (map snd (dict_update k v d)) = sum_list (map snd d) - dict_get d k 0 + v"
  by (induction d) auto

lemma sum_add_event_types:
  "sum_list (map snd (add_event_types x cs d)) = sum_list (map snd d) + int (length cs) * x"
  by (induction cs arbitrary: d) (auto simp: sum_dict_update algebra_simps)

lemma sum_accumulate:
  "sum_list (map snd (accumulate f es d)) =
     sum_list (map snd d) + (\<Sum>e\<leftarrow>es. int (length (extract_event_categories f e)) * extract_duration e)"
  by (induction es arbitrary: d) (auto simp: sum_add_event_types)

lemma sum_insort_key:
  fixes g :: "'a \<Rightarrow> int"
  shows "sum_list (map g (insort_key h x xs)) = g x + sum_list (map g xs)"
  by (induction xs) auto

lemma sum_sorted_items: "sum_list (map snd (sorted_items d)) = sum_list (map snd d)"
  unfolding sorted_items_def by (induction d) (auto simp: sum_insort_key)

lemma sum_categorize_events:
  "sum_list (map snd (categorize_events f es)) =
     (\<Sum>e\<leftarrow>es. int (length (extract_event_categories f e)) * extract_duration e)"
  by (simp add: categorize_events_def sum_sorted_items sum_accumulate)

lemma distinct_add_event_types:
  "distinct (map fst d) \<Longrightarrow> distinct (map fst (add_event_types x cs d))"
  by (induction cs arbitrary: d) (auto simp: distinct_dict_update)

lemma distinct_accumulate:
  "distinct (map fst d) \<Longrightarrow> distinct (map fst (accumulate f es d))"
  by (induction es arbitrary: d) (auto simp: distinct_add_event_types)

lemma map_of_sorted_items:
  assumes "distinct (map fst d)"
  shows "map_of (sorted_items d) = map_of d"
proof -
  have "distinct (map fst (sorted_items d))"
    using assms unfolding sorted_items_def
    by (metis distinct_map distinct_sort set_sort)
  moreover have "set (sorted_items d) = set d"
    by (simp add: sorted_items_def)
  ultimately show ?thesis
    using assms by (simp add: map_of_inject_set)
qed

lemma dict_get_add_event_types:
  "dict_get (add_event_types x cs d) k 0 = dict_get d k 0 + int (count_list cs k) * x"
proof (induction cs arbitrary: d)
  case Nil
  show ?case by simp
next
  case (Cons c cs)
  have "dict_get (dict_update c v d) k 0 = (if k = c then v else dict_get d k 0)" for v
    by (simp add: dict_get_map_of map_of_dict_update)
  then show ?case
    by (simp add: Cons.IH algebra_simps)
qed

lemma dict_get_accumulate:
  "dict_get (accumulate f es d) k 0 =
     dict_get d k 0 + (\<Sum>e\<leftarrow>es. int (count_list (extract_event_categories f e) k) * extract_duration e)"
  by (induction es arbitrary: d) (auto simp: dict_get_add_event_types)

text \<open>
  The total the report holds for a label is the sum, over the events, of the event's
  duration times the number of occurrences of the label among the categories
  extracted from the event.
\<close>

lemma dict_get_categorize_events:
  "dict_get (categorize_events f es) k 0 =
     (\<Sum>e\<leftarrow>es. int (count_list (extract_event_categories f e) k) * extract_duration e)"
  by (simp add: categorize_events_def dict_get_map_of [of "sorted_items _"]
      map_of_sorted_items distinct_accumulate
      dict_get_accumulate [unfolded dict_get_map_of, simplified] )


lemma first_encounters_distinct: "distinct xs \<Longrightarrow> first_encounters xs = xs"
  by (simp add: first_encounters_def distinct_remdups_id)

lemma remdups_insert_mid: "c \<in> set B \<Longrightarrow> remdups (A @ c # B) = remdups (A @ B)"
  by (induction A) auto

lemma keys_add_event_types:
  "distinct (map fst d) \<Longrightarrow>
   map fst (add_event_types x cs d) = first_encounters (map fst d @ cs)"
proof (induction cs arbitrary: d)
  case Nil
  then show ?case by (simp add: first_encounters_distinct)
next
  case (Cons c cs)
  let ?d = "dict_update c (dict_get d c 0 + x) d"
  have "map fst (add_event_types x (c # cs) d) = first_encounters (map fst ?d @ cs)"
    using Cons.IH [of ?d] Cons.prems by (simp add: distinct_dict_update)
  also have "\<dots> = first_encounters (map fst d @ c # cs)"
    by (simp add: keys_dict_update first_encounters_def remdups_insert_mid)
  finally show ?case .
qed

lemma first_encounters_idem_append:
  "first_encounters (first_encounters xs @ ys) = first_encounters (xs @ ys)"
  by (simp add: first_encounters_def remdups_append2)

lemma keys_accumulate:
  "distinct (map fst d) \<Longrightarrow>
   map fst (accumulate f es d) = first_encounters (map fst d @ event_labels f es)"
proof (induction es arbitrary: d)
  case Nil
  then show ?case by (simp add: first_encounters_distinct event_labels_def)
next
  case (Cons e es)
  let ?cs = "extract_event_categories f e"
  let ?d = "add_event_types (extract_duration e) ?cs d"
  have "map fst (accumulate f (e # es) d) = first_encounters (map fst ?d @ event_labels f es)"
    using Cons.IH [of ?d] Cons.prems by (simp add: distinct_add_event_types)
  also have "\<dots> = first_encounters ((map fst d @ ?cs) @ event_labels f es)"
    using Cons.prems
    by (simp only: keys_add_event_types first_encounters_idem_append)
  finally show ?case by (simp add: event_labels_def)
qed

lemma keys_filter_value:
  "distinct (map fst d) \<Longrightarrow>
   map fst (filter (\<lambda>p. snd p = v) d) = filter (\<lambda>k. dict_get d k 0 = v) (map fst d)"
proof (induction d)
  case Nil
  show ?case by simp
next
  case (Cons p d)
  have "filter (\<lambda>k. dict_get (p # d) k 0 = v) (map fst d) = filter (\<lambda>k. dict_get d k 0 = v) (map fst d)"
    using Cons.prems by (cases p) (auto intro!: filter_cong)
  with Cons show ?case by (cases p) auto
qed

lemma sorted_sorted_items: "sorted_wrt (\<lambda>p q. snd p \<ge> snd q) (sorted_items d)"
  using sorted_sort_key [of "\<lambda>item. - snd item" d]
  by (simp add: sorted_items_def sorted_map)

lemma stable_sorted_items:
  "filter (\<lambda>p. snd p = v) (sorted_items d) = filter (\<lambda>p. snd p = v) d"
  using sort_key_stable [of "\<lambda>item. - snd item" "- v" d]
  by (simp add: sorted_items_def)

section \<open>Properties of the report\<close>

text \<open>
  Claim C3. For every event sequence the report is ordered by accumulated duration,
  descending: every entry's duration is at least that of every later entry. The
  categories whose accumulated duration is a given \<open>v\<close> appear in the report in the
  order in which they were first encountered in the input: the labels of the report
  entries with duration \<open>v\<close> are the labels with total \<open>v\<close>, in the order of the first
  occurrences in the sequence of all extracted labels.
\<close>

theorem report_order:
  "sorted_wrt (\<lambda>p q. snd p \<ge> snd q) (categorize_events f es) \<and>
   map fst (filter (\<lambda>p. snd p = v) (categorize_events f es)) =
     filter (\<lambda>k. dict_get (categorize_events f es) k 0 = v)
       (first_encounters (event_labels f es))"
proof -
  let ?A = "accumulate f es []"
  have d: "distinct (map fst ?A)" by (simp add: distinct_accumulate)
  have g: "dict_get (categorize_events f es) k 0 = dict_get ?A k 0" for k
    by (simp add: categorize_events_def dict_get_map_of map_of_sorted_items d)
  have "map fst (filter (\<lambda>p. snd p = v) (categorize_events f es)) =
        map fst (filter (\<lambda>p. snd p = v) ?A)"
    by (simp add: categorize_events_def stable_sorted_items)
  also have "\<dots> = filter (\<lambda>k. dict_get ?A k 0 = v) (map fst ?A)"
    by (rule keys_filter_value [OF d])
  also have "map fst ?A = first_encounters (event_labels f es)"
    using keys_accumulate [of "[]" f es] by simp
  finally have "map fst (filter (\<lambda>p. snd p = v) (categorize_events f es)) =
      filter (\<lambda>k. dict_get (categorize_events f es) k 0 = v)
        (first_encounters (event_labels f es))"
    by (simp add: g)
  moreover have "sorted_wrt (\<lambda>p q. snd p \<ge> snd q) (categorize_events f es)"
    by (simp add: categorize_events_def sorted_sorted_items)
  ultimately show ?thesis by simp
qed

subsection \<open>The fallback of the extraction\<close>

text \<open>
  Claim C2, as amended. When the description is absent or holds no tag block, the
  extraction returns exactly the single-element list of the summary, with or without
  the first-tag option; and in every case the extracted categories are a non-empty
  list. (Nothing is promised about the strings themselves: an empty tag block is
  split into one empty label, see the counterexample below.)
\<close>

theorem extract_fallback:
  "(description e = None \<or> (\<exists>d. description e = Some d \<and> first_match d = None) \<longrightarrow>
      extract_event_types e = [summary e] \<and> extract_event_categories f e = [summary e]) \<and>
   extract_event_types e \<noteq> [] \<and> extract_event_categories f e \<noteq> []"
proof -
  have a: "extract_event_types e \<noteq> []"
    using extract_event_categories_nonempty [of False e]
    by (simp add: extract_event_categories_False)
  have b: "extract_event_categories f e \<noteq> []"
    by (rule extract_event_categories_nonempty)
  have c: "extract_event_types e = [summary e] \<and> extract_event_categories f e = [summary e]"
    if "description e = None \<or> (\<exists>d. description e = Some d \<and> first_match d = None)"
    using that by (auto simp: extract_event_types_def extract_event_categories_def)
  from a b c show ?thesis by blast
qed

text \<open>The fallback at an event without description.\<close>

theorem extract_fallback_witness:
  "description \<lparr>start_dateTime = \<lparr>wall = 0, utcoffset = 0\<rparr>,
                end_dateTime = \<lparr>wall = 3600, utcoffset = 0\<rparr>,
                summary = ''Lunch'', description = None\<rparr> = None \<and>
   extract_event_types \<lparr>start_dateTime = \<lparr>wall = 0, utcoffset = 0\<rparr>,
                end_dateTime = \<lparr>wall = 3600, utcoffset = 0\<rparr>,
                summary = ''Lunch'', description = None\<rparr> = [''Lunch''] \<and>
   extract_event_categories True \<lparr>start_dateTime = \<lparr>wall = 0, utcoffset = 0\<rparr>,
                end_dateTime = \<lparr>wall = 3600, utcoffset = 0\<rparr>,
                summary = ''Lunch'', description = None\<rparr> = [''Lunch'']"
  using extract_fallback [of "\<lparr>start_dateTime = \<lparr>wall = 0, utcoffset = 0\<rparr>,
                end_dateTime = \<lparr>wall = 3600, utcoffset = 0\<rparr>,
                summary = ''Lunch'', description = None\<rparr>" True]
  by simp

text \<open>
  Claim C2 as stated fails: for the description \<^verbatim>\<open>[Tags:]\<close> the tag block is empty, the
  match list is \<^verbatim>\<open>[""]\<close>, which is not empty, so the code does not fall back to the summary
  and returns the list of one empty string.
\<close>

theorem empty_tag_block_counterexample:
  "first_match ''[Tags:]'' = Some [] \<and>
   extract_event_types \<lparr>start_dateTime = \<lparr>wall = 0, utcoffset = 0\<rparr>,
                end_dateTime = \<lparr>wall = 3600, utcoffset = 0\<rparr>,
                summary = ''Lunch'', description = Some ''[Tags:]''\<rparr> = [[]] \<and>
   extract_event_types \<lparr>start_dateTime = \<lparr>wall = 0, utcoffset = 0\<rparr>,
                end_dateTime = \<lparr>wall = 3600, utcoffset = 0\<rparr>,
                summary = ''Lunch'', description = Some ''[Tags:]''\<rparr> \<noteq> [''Lunch''] \<and>
   extract_event_categories True \<lparr>start_dateTime = \<lparr>wall = 0, utcoffset = 0\<rparr>,
                end_dateTime = \<lparr>wall = 3600, utcoffset = 0\<rparr>,
                summary = ''Lunch'', description = Some ''[Tags:]''\<rparr> = [[]]"
  by (simp add: extract_event_types_def extract_event_categories_def strip_def)

lemma sum_list_nonneg_zero_iff:
  fixes g :: "'a \<Rightarrow> int"
  assumes "\<forall>x\<in>set xs. 0 \<le> g x"
  shows "0 \<le> sum_list (map g xs) \<and> (sum_list (map g xs) = 0 \<longleftrightarrow> (\<forall>x\<in>set xs. g x = 0))"
  using assms by (induction xs) (auto simp: add_nonneg_eq_0_iff)

subsection \<open>The sum of the report\<close>

text \<open>
  Claim C1, as amended. For every sequence of events none of which ends before it
  starts, the sum of the durations in the report is at least the sum of the event
  durations, with equality if and only if every event of non-zero duration has
  exactly one category.
\<close>

theorem category_sum_ge:
  assumes "\<forall>e\<in>set es. 0 \<le> extract_duration e"
  shows "sum_list (map extract_duration es) \<le> sum_list (map snd (categorize_events f es)) \<and>
         (sum_list (map snd (categorize_events f es)) = sum_list (map extract_duration es) \<longleftrightarrow>
            (\<forall>e\<in>set es. extract_duration e = 0 \<or> length (extract_event_categories f e) = 1))"
proof -
  let ?g = "\<lambda>e. (int (length (extract_event_categories f e)) - 1) * extract_duration e"
  let ?S = "sum_list (map snd (categorize_events f es))"
  let ?D = "sum_list (map extract_duration es)"
  have len: "0 \<le> int (length (extract_event_categories f e)) - 1" for e
    using extract_event_categories_nonempty [of f e] by simp
  have nonneg: "\<forall>e\<in>set es. 0 \<le> ?g e"
  proof
    fix e assume "e \<in> set es"
    with assms have "0 \<le> extract_duration e" by blast
    with len [of e] show "0 \<le> ?g e" by (rule mult_nonneg_nonneg)
  qed
  have "sum_list (map (\<lambda>e. int (length (extract_event_categories f e)) * extract_duration e) es)
          - ?D = sum_list (map ?g es)"
    by (induction es) (simp_all add: algebra_simps)
  then have diff: "?S - ?D = sum_list (map ?g es)"
    by (simp only: sum_categorize_events)
  have zero: "?g e = 0 \<longleftrightarrow> extract_duration e = 0 \<or> length (extract_event_categories f e) = 1" for e
    by auto
  note facts = sum_list_nonneg_zero_iff [OF nonneg]
  have ge: "?D \<le> ?S"
    using facts diff by linarith
  have "?S = ?D \<longleftrightarrow> sum_list (map ?g es) = 0"
    using diff by linarith
  also have "\<dots> \<longleftrightarrow> (\<forall>e\<in>set es. ?g e = 0)"
    using facts by blast
  also have "\<dots> \<longleftrightarrow> (\<forall>e\<in>set es. extract_duration e = 0 \<or> length (extract_event_categories f e) = 1)"
    by (simp only: zero)
  finally show ?thesis using ge by blast
qed

text \<open>The bound at a day of two events, the second with two categories.\<close>

theorem category_sum_ge_witness:
  "0 \<le> extract_duration
      \<lparr>start_dateTime = \<lparr>wall = 32400, utcoffset = - 18000\<rparr>,
        end_dateTime = \<lparr>wall = 36000, utcoffset = - 18000\<rparr>,
        summary = ''Standup'', description = None\<rparr> \<and>
   0 \<le> extract_duration
      \<lparr>start_dateTime = \<lparr>wall = 36000, utcoffset = - 18000\<rparr>,
        end_dateTime = \<lparr>wall = 43200, utcoffset = - 18000\<rparr>,
        summary = ''Coding'', description = Some ''[Tags: Work, Deep]''\<rparr> \<and>
   sum_list (map extract_duration
     [\<lparr>start_dateTime = \<lparr>wall = 32400, utcoffset = - 18000\<rparr>,
       end_dateTime = \<lparr>wall = 36000, utcoffset = - 18000\<rparr>,
       summary = ''Standup'', description = None\<rparr>,
      \<lparr>start_dateTime = \<lparr>wall = 36000, utcoffset = - 18000\<rparr>,
       end_dateTime = \<lparr>wall = 43200, utcoffset = - 18000\<rparr>,
       summary = ''Coding'', description = Some ''[Tags: Work, Deep]''\<rparr>])
   \<le> sum_list (map snd (categorize_events False
     [\<lparr>start_dateTime = \<lparr>wall = 32400, utcoffset = - 18000\<rparr>,
       end_dateTime = \<lparr>wall = 36000, utcoffset = - 18000\<rparr>,
       summary = ''Standup'', description = None\<rparr>,
      \<lparr>start_dateTime = \<lparr>wall = 36000, utcoffset = - 18000\<rparr>,
       end_dateTime = \<lparr>wall = 43200, utcoffset = - 18000\<rparr>,
       summary = ''Coding'', description = Some ''[Tags: Work, Deep]''\<rparr>]))"
proof -
  let ?e1 = "\<lparr>start_dateTime = \<lparr>wall = 32400, utcoffset = - 18000\<rparr>,
       end_dateTime = \<lparr>wall = 36000, utcoffset = - 18000\<rparr>,
       summary = ''Standup'', description = None\<rparr>"
  let ?e2 = "\<lparr>start_dateTime = \<lparr>wall = 36000, utcoffset = - 18000\<rparr>,
       end_dateTime = \<lparr>wall = 43200, utcoffset = - 18000\<rparr>,
       summary = ''Coding'', description = Some ''[Tags: Work, Deep]''\<rparr>"
  have h1: "0 \<le> extract_duration ?e1"
    by (simp add: extract_duration_def instant_def)
  have h2: "0 \<le> extract_duration ?e2"
    by (simp add: extract_duration_def instant_def)
  have h: "\<forall>e\<in>set [?e1, ?e2]. 0 \<le> extract_duration e"
    using h1 h2 by simp
  have c: "sum_list (map extract_duration [?e1, ?e2])
             \<le> sum_list (map snd (categorize_events False [?e1, ?e2]))"
    using category_sum_ge [OF h, of False] by (rule conjunct1)
  from h1 h2 c show ?thesis by (intro conjI)
qed

text \<open>
  Claim C1 as stated fails: an event of duration zero with two categories leaves the
  two sums equal, and it does not have exactly one category.
\<close>

theorem zero_duration_counterexample:
  "0 \<le> extract_duration \<lparr>start_dateTime = \<lparr>wall = 32400, utcoffset = - 18000\<rparr>,
       end_dateTime = \<lparr>wall = 32400, utcoffset = - 18000\<rparr>,
       summary = ''Ping'', description = Some ''[Tags: Work, Deep]''\<rparr> \<and>
   sum_list (map snd (categorize_events False
     [\<lparr>start_dateTime = \<lparr>wall = 32400, utcoffset = - 18000\<rparr>,
       end_dateTime = \<lparr>wall = 32400, utcoffset = - 18000\<rparr>,
       summary = ''Ping'', description = Some ''[Tags: Work, Deep]''\<rparr>])) =
   sum_list (map extract_duration
     [\<lparr>start_dateTime = \<lparr>wall = 32400, utcoffset = - 18000\<rparr>,
       end_dateTime = \<lparr>wall = 32400, utcoffset = - 18000\<rparr>,
       summary = ''Ping'', description = Some ''[Tags: Work, Deep]''\<rparr>]) \<and>
   extract_event_categories False
     \<lparr>start_dateTime = \<lparr>wall = 32400, utcoffset = - 18000\<rparr>,
       end_dateTime = \<lparr>wall = 32400, utcoffset = - 18000\<rparr>,
       summary = ''Ping'', description = Some ''[Tags: Work, Deep]''\<rparr> = [''Work'', ''Deep'']"
  by (simp add: categorize_events_def sorted_items_def extract_event_categories_def
      extract_duration_def instant_def strip_def isspace_def)

subsection \<open>Repeated labels\<close>

text \<open>The tag block \<^verbatim>\<open>[Tags: Work, Work]\<close> of a one-hour event gives two hours of work.\<close>

lemma duplicate_tag_example:
  "extract_event_types
     \<lparr>start_dateTime = \<lparr>wall = 32400, utcoffset = - 18000\<rparr>,
       end_dateTime = \<lparr>wall = 36000, utcoffset = - 18000\<rparr>,
       summary = ''Coding'', description = Some ''[Tags: Work, Work]''\<rparr> = [''Work'', ''Work''] \<and>
   categorize_events False
     [\<lparr>start_dateTime = \<lparr>wall = 32400, utcoffset = - 18000\<rparr>,
       end_dateTime = \<lparr>wall = 36000, utcoffset = - 18000\<rparr>,
       summary = ''Coding'', description = Some ''[Tags: Work, Work]''\<rparr>] = [(''Work'', 7200)]"
  by (simp add: categorize_events_def sorted_items_def extract_event_categories_def
      extract_event_types_def extract_duration_def instant_def strip_def isspace_def)

text \<open>
  Claim C9, as amended. Take an event whose description has a tag block, and add it
  anywhere to a sequence of events. With the first-tag option off (as always in
  \<^verbatim>\<open>analyze.py\<close>), the total of every label grows by the event's full duration, end
  minus start, once for each occurrence of the label among the trimmed entries of the
  tag block: a label listed twice receives twice the duration. With the first-tag
  option on, only the first entry of the block counts, once.
\<close>

theorem tag_block_occurrences:
  assumes "description e = Some d" and "first_match d = Some m"
  shows "dict_get (categorize_events False (before @ e # after)) k 0 =
           dict_get (categorize_events False (before @ after)) k 0 +
           int (count_list (map strip (split_comma m)) k) *
             (instant (end_dateTime e) - instant (start_dateTime e)) \<and>
         dict_get (categorize_events True (before @ e # after)) k 0 =
           dict_get (categorize_events True (before @ after)) k 0 +
           (if strip (hd (split_comma m)) = k
            then instant (end_dateTime e) - instant (start_dateTime e) else 0)"
proof -
  have all_tags: "extract_event_categories False e = map strip (split_comma m)"
    using assms by (simp add: extract_event_categories_def)
  obtain w ws where split: "split_comma m = w # ws"
    using split_comma_nonempty [of m] by (cases "split_comma m") auto
  have first_tag: "extract_event_categories True e = [strip (hd (split_comma m))]"
    using assms by (simp add: extract_event_categories_def split)
  have a: "dict_get (categorize_events False (before @ e # after)) k 0 =
           dict_get (categorize_events False (before @ after)) k 0 +
           int (count_list (map strip (split_comma m)) k) *
             (instant (end_dateTime e) - instant (start_dateTime e))"
    by (simp add: dict_get_categorize_events all_tags extract_duration_def)
  have b: "dict_get (categorize_events True (before @ e # after)) k 0 =
           dict_get (categorize_events True (before @ after)) k 0 +
           (if strip (hd (split_comma m)) = k
            then instant (end_dateTime e) - instant (start_dateTime e) else 0)"
    by (simp add: dict_get_categorize_events first_tag extract_duration_def)
  from a b show ?thesis by (rule conjI)
qed

text \<open>The one-hour event with the tag block \<^verbatim>\<open>[Tags: Work, Work]\<close>, alone in its sequence.\<close>

theorem tag_block_occurrences_witness:
  "description \<lparr>start_dateTime = \<lparr>wall = 32400, utcoffset = - 18000\<rparr>,
                end_dateTime = \<lparr>wall = 36000, utcoffset = - 18000\<rparr>,
                summary = ''Coding'', description = Some ''[Tags: Work, Work]''\<rparr> =
     Some ''[Tags: Work, Work]'' \<and>
   first_match ''[Tags: Work, Work]'' = Some '' Work, Work'' \<and>
   dict_get (categorize_events False
      [\<lparr>start_dateTime = \<lparr>wall = 32400, utcoffset = - 18000\<rparr>,
        end_dateTime = \<lparr>wall = 36000, utcoffset = - 18000\<rparr>,
        summary = ''Coding'', description = Some ''[Tags: Work, Work]''\<rparr>]) ''Work'' 0 = 7200 \<and>
   dict_get (categorize_events True
      [\<lparr>start_dateTime = \<lparr>wall = 32400, utcoffset = - 18000\<rparr>,
        end_dateTime = \<lparr>wall = 36000, utcoffset = - 18000\<rparr>,
        summary = ''Coding'', description = Some ''[Tags: Work, Work]''\<rparr>]) ''Work'' 0 = 3600"
proof -
  let ?e = "\<lparr>start_dateTime = \<lparr>wall = 32400, utcoffset = - 18000\<rparr>,
        end_dateTime = \<lparr>wall = 36000, utcoffset = - 18000\<rparr>,
        summary = ''Coding'', description = Some ''[Tags: Work, Work]''\<rparr>"
  have h1: "description ?e = Some ''[Tags: Work, Work]''" by simp
  have h2: "first_match ''[Tags: Work, Work]'' = Some '' Work, Work''" by simp
  have labels: "map strip (split_comma '' Work, Work'') = [''Work'', ''Work'']"
    by (simp add: strip_def isspace_def)
  have none: "categorize_events f [] = []" for f
    by (simp add: categorize_events_def sorted_items_def)
  have "dict_get (categorize_events False [?e]) ''Work'' 0 = 7200 \<and>
        dict_get (categorize_events True [?e]) ''Work'' 0 = 3600"
    using tag_block_occurrences [OF h1 h2, of "[]" "[]" "''Work''"] labels
    by (simp add: none split_comma_nonempty instant_def)
  with h1 h2 show ?thesis by (intro conjI) simp_all
qed

text \<open>
  Claim C9 as stated fails with the first-tag option on: the label is listed twice in
  the tag block of the one-hour event, and the report holds one hour for it.
\<close>

theorem first_tag_only_counterexample:
  "first_match ''[Tags: Work, Work]'' = Some '' Work, Work'' \<and>
   count_list (map strip (split_comma '' Work, Work'')) ''Work'' = 2 \<and>
   extract_duration \<lparr>start_dateTime = \<lparr>wall = 32400, utcoffset = - 18000\<rparr>,
        end_dateTime = \<lparr>wall = 36000, utcoffset = - 18000\<rparr>,
        summary = ''Coding'', description = Some ''[Tags: Work, Work]''\<rparr> = 3600 \<and>
   categorize_events True
      [\<lparr>start_dateTime = \<lparr>wall = 32400, utcoffset = - 18000\<rparr>,
        end_dateTime = \<lparr>wall = 36000, utcoffset = - 18000\<rparr>,
        summary = ''Coding'', description = Some ''[Tags: Work, Work]''\<rparr>] = [(''Work'', 3600)]"
  by (simp add: categorize_events_def sorted_items_def extract_event_categories_def
      extract_duration_def instant_def strip_def isspace_def)

subsection \<open>The empty sequence\<close>

text \<open>
  Claim C10. Aggregating the empty event sequence returns the empty mapping; the
  aggregation has no failing branch, and the failure comes when the empty mapping is
  handed to the formatter, whose \<^verbatim>\<open>max()\<close> raises.
\<close>

theorem categorize_events_empty:
  "categorize_events first_tag_only [] = [] \<and>
   print_analysis (categorize_events first_tag_only []) = ([], Some ValueError) \<and>
   GCalAuditor_print_analysis self (categorize_events first_tag_only []) = ([], Some ValueError)"
  by (simp add: categorize_events_def sorted_items_def print_analysis_def
      GCalAuditor_print_analysis_def)

section \<open>Properties of the audits\<close>

text \<open>
  Claim C8. When the query fails with \<^verbatim>\<open>HttpError\<close> the audit does what it does for an
  empty list of events: it prints that no events were found and returns without an
  exception. The same holds of the audit of a week.
\<close>

theorem fetch_failure_as_no_events:
  "audit_window self HttpError start_datetime end_datetime =
     audit_window self (Items []) start_datetime end_datetime \<and>
   audit_window self HttpError start_datetime end_datetime =
     (self\<lparr>total_duration := Some (instant end_datetime - instant start_datetime)\<rparr>,
      [NoEventsFound start_datetime end_datetime], None) \<and>
   audit_week self answer n HttpError = audit_week self answer n (Items [])"
proof -
  have a: "audit_window self HttpError start_datetime end_datetime =
     (self\<lparr>total_duration := Some (instant end_datetime - instant start_datetime)\<rparr>,
      [NoEventsFound start_datetime end_datetime], None)"
    by (simp add: audit_window_def query_events_def not_events_def)
  have b: "audit_window self (Items []) start_datetime end_datetime =
     (self\<lparr>total_duration := Some (instant end_datetime - instant start_datetime)\<rparr>,
      [NoEventsFound start_datetime end_datetime], None)"
    by (simp add: audit_window_def query_events_def not_events_def)
  have c: "audit_week self answer n HttpError = audit_week self answer n (Items [])"
    by (cases "input_week n")
       (auto simp: audit_week_def set_tag_option_def query_events_def not_events_def Let_def)
  from a b c show ?thesis by simp
qed

section \<open>Properties of the rendering\<close>

text \<open>
  Claim C4, as amended. For the two events 09:00 to 10:00 "Standup" without tags and
  10:00 to 12:00 "Coding" tagged "Work" of one day at UTC-05:00, the aggregation
  produces the report \<^verbatim>\<open>{"Work": 7200, "Standup": 3600}\<close>, and the formatter of
  \<^verbatim>\<open>analyze.py\<close> renders the percentages of the 86400-second day as \<^verbatim>\<open>8.33\<close> and
  \<^verbatim>\<open>4.17\<close>.
\<close>

theorem scenario_report:
  "categorize_events False
     [\<lparr>start_dateTime = \<lparr>wall = 63844794000, utcoffset = - 18000\<rparr>,
       end_dateTime = \<lparr>wall = 63844797600, utcoffset = - 18000\<rparr>,
       summary = ''Standup'', description = None\<rparr>,
      \<lparr>start_dateTime = \<lparr>wall = 63844797600, utcoffset = - 18000\<rparr>,
       end_dateTime = \<lparr>wall = 63844804800, utcoffset = - 18000\<rparr>,
       summary = ''Coding'', description = Some ''[Tags: Work]''\<rparr>] =
     [(''Work'', 7200), (''Standup'', 3600)] \<and>
   percent_of_day 7200 = ''8.33'' \<and> percent_of_day 3600 = ''4.17'' \<and>
   print_analysis [(''Work'', 7200), (''Standup'', 3600)] =
     ([''+----------------------------------+'',
       ''| Event Type | Duration | % of Day |'',
       ''+----------------------------------+'',
       ''| Work    |   2:00   |   8.33   |'',
       ''| Standup |   1:00   |   4.17   |'',
       ''+----------------------------------+''], None)"
proof -
  have a: "categorize_events False
     [\<lparr>start_dateTime = \<lparr>wall = 63844794000, utcoffset = - 18000\<rparr>,
       end_dateTime = \<lparr>wall = 63844797600, utcoffset = - 18000\<rparr>,
       summary = ''Standup'', description = None\<rparr>,
      \<lparr>start_dateTime = \<lparr>wall = 63844797600, utcoffset = - 18000\<rparr>,
       end_dateTime = \<lparr>wall = 63844804800, utcoffset = - 18000\<rparr>,
       summary = ''Coding'', description = Some ''[Tags: Work]''\<rparr>] =
     [(''Work'', 7200), (''Standup'', 3600)]"
    by (simp add: categorize_events_def sorted_items_def extract_event_categories_def
        extract_duration_def instant_def strip_def isspace_def)
  have b: "percent_of_day 7200 = ''8.33''" by code_simp
  have c: "percent_of_day 3600 = ''4.17''" by code_simp
  have d: "print_analysis [(''Work'', 7200), (''Standup'', 3600)] =
     ([''+----------------------------------+'',
       ''| Event Type | Duration | % of Day |'',
       ''+----------------------------------+'',
       ''| Work    |   2:00   |   8.33   |'',
       ''| Standup |   1:00   |   4.17   |'',
       ''+----------------------------------+''], None)"
    by code_simp
  from a b c d show ?thesis by blast
qed

text \<open>
  Claim C4 as stated fails: the percentages are not \<^verbatim>\<open>16.67\<close> and \<^verbatim>\<open>8.33\<close>.
\<close>

theorem scenario_percentages_counterexample:
  "\<not> (percent_of_day 7200 = ''16.67'' \<and> percent_of_day 3600 = ''8.33'')"
proof -
  have "percent_of_day 7200 = ''8.33''" by code_simp
  then show ?thesis by simp
qed

text \<open>
  Two durations whose exact percentage lies halfway between two hundredths: the float
  arithmetic decides, once downwards and once upwards.
\<close>

lemma percent_of_day_at_ties:
  "percent_of_day 12420 = ''14.37'' \<and> percent_of_day 11772 = ''13.63''"
proof -
  have a: "percent_of_day 12420 = ''14.37''" by code_simp
  have b: "percent_of_day 11772 = ''13.63''" by code_simp
  from a b show ?thesis by (rule conjI)
qed

text \<open>
  Claim C5 at six hours of a day: \<^verbatim>\<open>analyze.py\<close> and \<^verbatim>\<open>gcal/analyze.py\<close> print the
  rounded float as it is, with one digit after the point, where \<^verbatim>\<open>gcal/audit.py\<close>
  formats it with two.
\<close>

theorem percent_digits_after_point:
  "percent_of_day 21600 = ''25.0'' \<and>
   GCalAnalyzer_percent_of_total (Some 86400) 21600 = Inr ''25.0'' \<and>
   percent_of_total (Some 86400) 21600 = Inr ''25.00''"
proof -
  have a: "percent_of_day 21600 = ''25.0''" by code_simp
  have b: "GCalAnalyzer_percent_of_total (Some 86400) 21600 = Inr ''25.0''" by code_simp
  have c: "percent_of_total (Some 86400) 21600 = Inr ''25.00''" by code_simp
  from a b c show ?thesis by blast
qed

text \<open>The format \<^verbatim>\<open>:.2f\<close> of \<^verbatim>\<open>gcal/audit.py\<close> always ends in a point and two digits.\<close>

lemma percent_of_total_two_digits:
  assumes "t \<noteq> 0"
  shows "\<exists>s a b. percent_of_total (Some t) seconds = Inr (s @ ''.'' @ [a, b])"
proof -
  let ?h = "nat \<bar>percent_hundredths seconds t\<bar>"
  have "percent_of_total (Some t) seconds =
          Inr (((if negative seconds t then ''-'' else []) @ str_nat (?h div 100)) @ ''.'' @
               [digit_char (?h mod 100 div 10), digit_char (?h mod 10)])"
    using assms by (simp add: percent_of_total_def format_2f_def)
  then show ?thesis by blast
qed

text \<open>A window length that is set and not zero lets every row be printed.\<close>

lemma table_row_defined:
  "t \<noteq> 0 \<Longrightarrow> \<exists>row. table_row (Some t) w label seconds = Inr row"
  by (simp add: table_row_def percent_of_total_def)

lemma data_rows_no_exception:
  "t \<noteq> 0 \<Longrightarrow> snd (data_rows (Some t) w categories) = None"
proof (induction categories)
  case Nil
  show ?case by simp
next
  case (Cons p categories)
  obtain event_type seconds where p: "p = (event_type, seconds)" by (cases p)
  obtain row where row: "table_row (Some t) w event_type seconds = Inr row"
    using table_row_defined [OF Cons.prems] by blast
  obtain rows where rows: "data_rows (Some t) w categories = (rows, None)"
    using Cons.IH [OF Cons.prems] by (cases "data_rows (Some t) w categories") simp
  show ?case by (simp add: p row rows)
qed

lemma GCalAuditor_print_analysis_no_exception:
  assumes "categories \<noteq> []" and "total_duration self = Some t" and "t \<noteq> 0"
  shows "snd (GCalAuditor_print_analysis self categories) = None"
proof -
  obtain rows where rows:
    "data_rows (Some t) (event_type_max_len categories) categories = (rows, None)"
    using data_rows_no_exception [OF assms(3), of "event_type_max_len categories" categories]
    by (cases "data_rows (Some t) (event_type_max_len categories) categories") simp
  obtain row where row:
    "table_row (Some t) (event_type_max_len categories) ''Total''
       (sum_list (map snd categories)) = Inr row"
    using table_row_defined [OF assms(3)] by blast
  show ?thesis
    using assms(1) by (simp add: GCalAuditor_print_analysis_def Let_def assms(2) rows row)
qed

text \<open>
  Claim C6, as amended. On the empty mapping the formatter fails: \<^verbatim>\<open>max()\<close> raises
  \<^verbatim>\<open>ValueError\<close> before anything is printed. On every non-empty mapping the formatter
  of \<^verbatim>\<open>analyze.py\<close> does not raise, and the formatter of \<^verbatim>\<open>gcal/audit.py\<close> does not
  raise when the window length is set and is not zero.
\<close>

theorem print_analysis_raises:
  "print_analysis [] = ([], Some ValueError) \<and>
   GCalAuditor_print_analysis self [] = ([], Some ValueError) \<and>
   (categories \<noteq> [] \<longrightarrow> snd (print_analysis categories) = None) \<and>
   (categories \<noteq> [] \<and> total_duration self = Some t \<and> t \<noteq> 0 \<longrightarrow>
      snd (GCalAuditor_print_analysis self categories) = None)"
proof -
  have a: "print_analysis [] = ([], Some ValueError)"
    by (simp add: print_analysis_def)
  have b: "GCalAuditor_print_analysis self [] = ([], Some ValueError)"
    by (simp add: GCalAuditor_print_analysis_def)
  have c: "snd (print_analysis categories) = None" if "categories \<noteq> []"
    using that by (simp add: print_analysis_def Let_def)
  have d: "snd (GCalAuditor_print_analysis self categories) = None"
    if "categories \<noteq> [] \<and> total_duration self = Some t \<and> t \<noteq> 0"
    using that GCalAuditor_print_analysis_no_exception by blast
  from a b c d show ?thesis by blast
qed

text \<open>The formatters at a one-category report and the window of a day.\<close>

theorem print_analysis_raises_witness:
  "[(''Work'', 7200 :: int)] \<noteq> [] \<and>
   total_duration \<lparr>audit_first_tag_only = True, total_duration = Some 86399\<rparr> = Some 86399 \<and>
   (86399 :: int) \<noteq> 0 \<and>
   snd (print_analysis [(''Work'', 7200)]) = None \<and>
   snd (GCalAuditor_print_analysis
         \<lparr>audit_first_tag_only = True, total_duration = Some 86399\<rparr> [(''Work'', 7200)]) = None"
  using print_analysis_raises
    [of "\<lparr>audit_first_tag_only = True, total_duration = Some 86399\<rparr>"
        "[(''Work'', 7200)]" 86399]
  by simp

text \<open>
  Claim C6 as stated fails: with a window of length zero (a datetime range whose end
  is its start) the division in the first row raises \<^verbatim>\<open>ZeroDivisionError\<close> on a
  non-empty mapping.
\<close>

theorem zero_window_counterexample:
  "[(''Work'', 3600 :: int)] \<noteq> [] \<and>
   snd (GCalAuditor_print_analysis
         \<lparr>audit_first_tag_only = False, total_duration = Some 0\<rparr> [(''Work'', 3600)]) =
     Some ZeroDivisionError"
  by (simp add: GCalAuditor_print_analysis_def Let_def table_row_def percent_of_total_def)

section \<open>Properties of the audit of a week\<close>

lemma first_encounters_empty: "first_encounters xs = [] \<longleftrightarrow> xs = []"
proof -
  have "set (first_encounters xs) = set xs"
    by (simp add: first_encounters_def)
  then show ?thesis by (metis set_empty)
qed

lemma event_labels_nonempty: "es \<noteq> [] \<Longrightarrow> event_labels f es \<noteq> []"
  by (cases es) (simp_all add: event_labels_def extract_event_categories_nonempty)

lemma categorize_events_nonempty:
  assumes "es \<noteq> []"
  shows "categorize_events f es \<noteq> []"
proof -
  have "map fst (accumulate f es []) = first_encounters (event_labels f es)"
    using keys_accumulate [of "[]" f es] by simp
  then have "accumulate f es [] \<noteq> []"
    using event_labels_nonempty [OF assms, of f] first_encounters_empty [of "event_labels f es"]
    by auto
  then have "set (sorted_items (accumulate f es [])) \<noteq> {}"
    by (simp add: sorted_items_def)
  then show ?thesis
    by (auto simp: categorize_events_def)
qed

lemma day_state:
  "self\<lparr>total_duration := Some SECS_IN_DAY\<rparr> =
     \<lparr>audit_first_tag_only = audit_first_tag_only self, total_duration = Some 86400\<rparr>"
  by (cases self) (simp add: SECS_IN_DAY_def)

text \<open>
  A round of the loop prints the section of its day and raises nothing: the events of
  the day are not empty when the table is printed, and the window length is a day.
\<close>

lemma audit_one_day_section:
  "audit_one_day (self\<lparr>total_duration := Some SECS_IN_DAY\<rparr>) events cur_datetime =
     (day_section (audit_first_tag_only self) events cur_datetime, None)"
proof (cases "cur_events events cur_datetime = []")
  case True
  then show ?thesis
    by (simp add: audit_one_day_def day_section_def)
next
  case False
  let ?self = "\<lparr>audit_first_tag_only = audit_first_tag_only self, total_duration = Some 86400\<rparr>"
  let ?cats = "categorize_events (audit_first_tag_only self) (cur_events events cur_datetime)"
  have "snd (GCalAuditor_print_analysis ?self ?cats) = None"
    by (rule GCalAuditor_print_analysis_no_exception [where t = 86400])
       (simp_all add: categorize_events_nonempty False)
  then obtain lines where "GCalAuditor_print_analysis ?self ?cats = (lines, None)"
    by (cases "GCalAuditor_print_analysis ?self ?cats") simp
  with False show ?thesis
    by (simp add: audit_one_day_def day_section_def day_state)
qed

text \<open>The loop from day \<open>j\<close> of the week on prints the sections of the days left.\<close>

lemma audit_days_from:
  assumes e: "wall e = wall s + 6 * 86400 + 86399" "utcoffset e = utcoffset s"
    and s: "0 \<le> wall s" "wall s + 6 * 86400 < MAX_DAYS * 86400"
  shows "j \<le> 7 \<Longrightarrow>
     fst (snd (audit_days self events (s\<lparr>wall := wall s + int j * 86400\<rparr>) e)) =
       concat (map (\<lambda>k. day_section (audit_first_tag_only self) events
                            (s\<lparr>wall := wall s + int k * 86400\<rparr>)) [j..<7])"
proof (induction "7 - j" arbitrary: j self)
  case 0
  then have j: "j = 7" by simp
  have "\<not> instant (s\<lparr>wall := wall s + int j * 86400\<rparr>) \<le> instant e"
    using e by (simp add: instant_def j)
  then show ?case
    by (subst audit_days.simps) (simp add: j)
next
  case (Suc m)
  then have j: "j < 7" by simp
  let ?cur = "s\<lparr>wall := wall s + int j * 86400\<rparr>"
  let ?self = "self\<lparr>total_duration := Some SECS_IN_DAY\<rparr>"
  let ?sec = "\<lambda>k. day_section (audit_first_tag_only self) events
                      (s\<lparr>wall := wall s + int k * 86400\<rparr>)"
  have le: "instant ?cur \<le> instant e"
    using e j by (simp add: instant_def)
  have upt: "[j..<7] = j # [Suc j..<7]"
    using j by (simp add: upt_conv_Cons)
  show ?case
  proof (cases "plus_days ?cur 1")
    case (Inl err)
    then have "MAX_DAYS * 86400 \<le> wall s + int j * 86400 + 86400"
      using s by (simp add: plus_days_def SECS_IN_DAY_def Let_def split: if_splits)
    with s j have "j = 6" by simp
    then have "[j..<7] = [j]" by (simp add: upt_conv_Cons)
    then show ?thesis
      by (simp add: audit_days.simps [of self events ?cur e] le audit_one_day_section Inl)
  next
    case (Inr cur')
    then have cur': "cur' = s\<lparr>wall := wall s + int (Suc j) * 86400\<rparr>"
      by (simp add: plus_days_def SECS_IN_DAY_def Let_def algebra_simps split: if_splits)
    have "m = 7 - Suc j" using Suc.hyps(2) by simp
    moreover have "Suc j \<le> 7" using j by simp
    ultimately have ih:
      "fst (snd (audit_days ?self events (s\<lparr>wall := wall s + int (Suc j) * 86400\<rparr>) e)) =
         concat (map ?sec [Suc j..<7])"
      using Suc.hyps(1) [of "Suc j" ?self] by simp
    obtain self'' out' status where rest:
      "audit_days ?self events cur' e = (self'', out', status)"
      by (cases "audit_days ?self events cur' e") auto
    then have "out' = concat (map ?sec [Suc j..<7])"
      using ih by (simp add: cur')
    then show ?thesis
      by (simp add: audit_days.simps [of self events ?cur e] le audit_one_day_section Inr
          rest upt)
  qed
qed

text \<open>
  Claim C7. For every week window that \<^verbatim>\<open>input_week\<close> returns, the loop over the days
  prints exactly seven sections, one for each day from the start day on. Each is the
  heading of the day followed either by the marker that no events were found or by
  the table of the day's events, whose percentages are taken of 86400 seconds
  whatever the events of the day are.
\<close>

theorem week_sections:
  assumes "input_week n = Inr (start_datetime, end_datetime)"
  shows "fst (snd (audit_days self events start_datetime end_datetime)) =
           concat (map (\<lambda>k. day_section (audit_first_tag_only self) events
                                (start_datetime\<lparr>wall := wall start_datetime + int k * 86400\<rparr>))
                   [0..<7])"
proof -
  from assms have n: "0 \<le> n" "n + 6 < MAX_DAYS"
    and s: "start_datetime = \<lparr>wall = n * 86400, utcoffset = - 25200\<rparr>"
    and e: "end_datetime = \<lparr>wall = (n + 6) * 86400 + 86399, utcoffset = - 25200\<rparr>"
    by (simp_all add: input_week_def SECS_IN_DAY_def split: if_splits)
  have "fst (snd (audit_days self events
               (start_datetime\<lparr>wall := wall start_datetime + int 0 * 86400\<rparr>) end_datetime)) =
        concat (map (\<lambda>k. day_section (audit_first_tag_only self) events
                             (start_datetime\<lparr>wall := wall start_datetime + int k * 86400\<rparr>))
                [0..<7])"
    by (rule audit_days_from) (use n in \<open>simp_all add: s e\<close>)
  then show ?thesis by simp
qed

text \<open>The week from Thursday 2024-02-29 with one event on the Friday.\<close>

theorem week_sections_witness:
  "input_week 738944 =
     Inr (\<lparr>wall = 63844761600, utcoffset = - 25200\<rparr>,
          \<lparr>wall = 63845366399, utcoffset = - 25200\<rparr>) \<and>
   fst (snd (audit_days \<lparr>audit_first_tag_only = False, total_duration = Some 604799\<rparr>
              [\<lparr>start_dateTime = \<lparr>wall = 63844880400, utcoffset = - 25200\<rparr>,
                end_dateTime = \<lparr>wall = 63844884000, utcoffset = - 25200\<rparr>,
                summary = ''Standup'', description = None\<rparr>]
              \<lparr>wall = 63844761600, utcoffset = - 25200\<rparr>
              \<lparr>wall = 63845366399, utcoffset = - 25200\<rparr>)) =
     concat (map (\<lambda>k. day_section False
                    [\<lparr>start_dateTime = \<lparr>wall = 63844880400, utcoffset = - 25200\<rparr>,
                      end_dateTime = \<lparr>wall = 63844884000, utcoffset = - 25200\<rparr>,
                      summary = ''Standup'', description = None\<rparr>]
                    (\<lparr>wall = 63844761600, utcoffset = - 25200\<rparr>
                       \<lparr>wall := wall \<lparr>wall = 63844761600, utcoffset = - 25200\<rparr> + int k * 86400\<rparr>))
             [0..<7])"
proof -
  have h: "input_week 738944 =
     Inr (\<lparr>wall = 63844761600, utcoffset = - 25200\<rparr>,
          \<lparr>wall = 63845366399, utcoffset = - 25200\<rparr>)"
    by (simp add: input_week_def MAX_DAYS_def SECS_IN_DAY_def)
  from week_sections [OF h,
      of "\<lparr>audit_first_tag_only = False, total_duration = Some 604799\<rparr>"
         "[\<lparr>start_dateTime = \<lparr>wall = 63844880400, utcoffset = - 25200\<rparr>,
            end_dateTime = \<lparr>wall = 63844884000, utcoffset = - 25200\<rparr>,
            summary = ''Standup'', description = None\<rparr>]"]
  have "fst (snd (audit_days \<lparr>audit_first_tag_only = False, total_duration = Some 604799\<rparr>
              [\<lparr>start_dateTime = \<lparr>wall = 63844880400, utcoffset = - 25200\<rparr>,
                end_dateTime = \<lparr>wall = 63844884000, utcoffset = - 25200\<rparr>,
                summary = ''Standup'', description = None\<rparr>]
              \<lparr>wall = 63844761600, utcoffset = - 25200\<rparr>
              \<lparr>wall = 63845366399, utcoffset = - 25200\<rparr>)) =
     concat (map (\<lambda>k. day_section False
                    [\<lparr>start_dateTime = \<lparr>wall = 63844880400, utcoffset = - 25200\<rparr>,
                      end_dateTime = \<lparr>wall = 63844884000, utcoffset = - 25200\<rparr>,
                      summary = ''Standup'', description = None\<rparr>]
                    (\<lparr>wall = 63844761600, utcoffset = - 25200\<rparr>
                       \<lparr>wall := wall \<lparr>wall = 63844761600, utcoffset = - 25200\<rparr> + int k * 86400\<rparr>))
             [0..<7])"
    by simp
  with h show ?thesis by (intro conjI)
qed

text \<open>What that week prints.\<close>

lemma week_example:
  "fst (snd (audit_days \<lparr>audit_first_tag_only = False, total_duration = Some 604799\<rparr>
              [\<lparr>start_dateTime = \<lparr>wall = 63844880400, utcoffset = - 25200\<rparr>,
                end_dateTime = \<lparr>wall = 63844884000, utcoffset = - 25200\<rparr>,
                summary = ''Standup'', description = None\<rparr>]
              \<lparr>wall = 63844761600, utcoffset = - 25200\<rparr>
              \<lparr>wall = 63845366399, utcoffset = - 25200\<rparr>)) =
   [DayHeading ''Thursday'' 738944,
    NoEventsFoundFor \<lparr>wall = 63844761600, utcoffset = - 25200\<rparr>,
    DayHeading ''Friday'' 738945,
    Line ''+------------------------------------+'',
    Line ''| Event Type | Duration | % of Total |'',
    Line ''+------------------------------------+'',
    Line ''| Standup |   1:00   |    4.17    |'',
    Line ''+------------------------------------+'',
    DayHeading ''Saturday'' 738946,
    NoEventsFoundFor \<lparr>wall = 63844934400, utcoffset = - 25200\<rparr>,
    DayHeading ''Sunday'' 738947,
    NoEventsFoundFor \<lparr>wall = 63845020800, utcoffset = - 25200\<rparr>,
    DayHeading ''Monday'' 738948,
    NoEventsFoundFor \<lparr>wall = 63845107200, utcoffset = - 25200\<rparr>,
    DayHeading ''Tuesday'' 738949,
    NoEventsFoundFor \<lparr>wall = 63845193600, utcoffset = - 25200\<rparr>,
    DayHeading ''Wednesday'' 738950,
    NoEventsFoundFor \<lparr>wall = 63845280000, utcoffset = - 25200\<rparr>]"
  by code_simp

end
